theory Spec2Isabelle
  imports Main "HOL-Library.Sublist"
begin

section \<open>Strings and URLSearchParams\<close>

text \<open>
  JavaScript strings are modelled as \<^typ>\<open>string\<close>, read as the bytes of their UTF-8 form.
  A string is truthy when it is not empty; \<open>null\<close> and \<open>undefined\<close> are \<open>None\<close>.

  \<open>URLSearchParams\<close> is the browser's list of name/value pairs. Its serializer and parser
  are the application/x-www-form-urlencoded algorithms of the URL standard: a space is
  written \<open>+\<close>, the unreserved bytes (letters, digits, \<open>* - . _\<close>) stand for themselves,
  every other byte is written \<open>%XY\<close> in upper-case hexadecimal. The parser cuts the input
  at \<open>&\<close>, skips empty pieces, cuts each piece at its first \<open>=\<close>, turns \<open>+\<close> into a
  space and percent-decodes. The parser's last step, the replacement of byte sequences
  that are not UTF-8, is not part of the model.
\<close>

definition truthy :: "string option \<Rightarrow> bool" where
  "truthy v = (case v of None \<Rightarrow> False | Some s \<Rightarrow> s \<noteq> [])"

definition unreserved :: "char \<Rightarrow> bool" where
  "unreserved c =
     (let n = (of_char c :: nat)
      in (48 \<le> n \<and> n \<le> 57) \<or> (65 \<le> n \<and> n \<le> 90) \<or> (97 \<le> n \<and> n \<le> 122)
         \<or> n = 42 \<or> n = 45 \<or> n = 46 \<or> n = 95)"

definition hex_digit :: "nat \<Rightarrow> char" where
  "hex_digit k = char_of (if k < 10 then 48 + k else 55 + k)"

definition is_hex :: "char \<Rightarrow> bool" where
  "is_hex c =
     (let n = (of_char c :: nat)
      in (48 \<le> n \<and> n \<le> 57) \<or> (65 \<le> n \<and> n \<le> 70) \<or> (97 \<le> n \<and> n \<le> 102))"

definition hex_val :: "char \<Rightarrow> nat" where
  "hex_val c =
     (let n = (of_char c :: nat)
      in if n \<le> 57 then n - 48 else if n \<le> 70 then n - 55 else n - 87)"

definition percent_encode_byte :: "char \<Rightarrow> string" where
  "percent_encode_byte c =
     (if c = CHR '' '' then ''+''
      else if unreserved c then [c]
      else [CHR ''%'', hex_digit (of_char c div 16), hex_digit (of_char c mod 16)])"

definition form_encode :: "string \<Rightarrow> string" where
  "form_encode s = concat (map percent_encode_byte s)"

fun join :: "string \<Rightarrow> string list \<Rightarrow> string" where
  "join sep [] = []"
| "join sep [x] = x"
| "join sep (x # y # ys) = x @ sep @ join sep (y # ys)"

definition params_toString :: "(string \<times> string) list \<Rightarrow> string" where
  "params_toString ps = join ''&'' (map (\<lambda>(k, v). form_encode k @ ''='' @ form_encode v) ps)"

fun percent_decode :: "string \<Rightarrow> string" where
  "percent_decode (c # h # l # rest) =
     (if c = CHR ''%'' \<and> is_hex h \<and> is_hex l
      then char_of (hex_val h * 16 + hex_val l) # percent_decode rest
      else c # percent_decode (h # l # rest))"
| "percent_decode (c # rest) = c # percent_decode rest"
| "percent_decode [] = []"

definition plus_to_space :: "string \<Rightarrow> string" where
  "plus_to_space s = map (\<lambda>c. if c = CHR ''+'' then CHR '' '' else c) s"

fun split_on :: "char \<Rightarrow> string \<Rightarrow> string list" where
  "split_on sep [] = [[]]"
| "split_on sep (c # cs) =
     (if c = sep then [] # split_on sep cs
      else (case split_on sep cs of [] \<Rightarrow> [[c]] | p # ps \<Rightarrow> (c # p) # ps))"

definition parse_pair :: "string \<Rightarrow> string \<times> string" where
  "parse_pair bytes =
     (let name = takeWhile (\<lambda>c. c \<noteq> CHR ''='') bytes;
          val = drop 1 (dropWhile (\<lambda>c. c \<noteq> CHR ''='') bytes)
      in (percent_decode (plus_to_space name), percent_decode (plus_to_space val)))"

definition form_parse :: "string \<Rightarrow> (string \<times> string) list" where
  "form_parse input = map parse_pair (filter (\<lambda>b. b \<noteq> []) (split_on CHR ''&'' input))"

text \<open>\<open>new URLSearchParams(init)\<close> on a string drops one leading \<open>?\<close> before parsing.\<close>

definition new_URLSearchParams :: "string \<Rightarrow> (string \<times> string) list" where
  "new_URLSearchParams init =
     form_parse (case init of [] \<Rightarrow> [] | c # rest \<Rightarrow> if c = CHR ''?'' then rest else init)"

text \<open>\<open>params.set\<close> overwrites the first pair of that name and removes the others, or
  appends; \<open>params.get\<close> returns the first value of that name, or \<open>null\<close>.\<close>

fun params_set :: "(string \<times> string) list \<Rightarrow> string \<Rightarrow> string \<Rightarrow> (string \<times> string) list" where
  "params_set [] k v = [(k, v)]"
| "params_set ((k', v') # ps) k v =
     (if k' = k then (k, v) # filter (\<lambda>p. fst p \<noteq> k) ps else (k', v') # params_set ps k v)"

definition params_get :: "(string \<times> string) list \<Rightarrow> string \<Rightarrow> string option" where
  "params_get ps k = map_of ps k"

section \<open>The dataset and the selection state\<close>

text \<open>
  The dataset is \<open>data.json\<close> after validation, in the shape the README gives it. A
  JavaScript object used as a mapping is an association list in the order
  \<open>Object.keys\<close> enumerates it (the order of declaration, except that keys written as
  array indices come first); a property read is \<^const>\<open>map_of\<close>. Keys are taken not to
  be names every JavaScript object inherits, such as \<open>constructor\<close> or \<open>toString\<close>: a
  read of such a key finds the inherited property, which the list does not hold. Fields
  the code reads through \<open>?.\<close> or \<open>??\<close> are optional; \<open>labels\<close>, read as
  \<open>labels ?? []\<close>, is the empty list when absent.
\<close>

record drilldown_detail =
  headline :: string
  interpretationText :: string
  whyItMatters :: string
  implications :: "string list option"
  teachingFocus :: string

record chart =
  labels :: "string list"
  sourceId :: "string option"
  asOfDate :: "string option"
  drilldown :: "(string \<times> drilldown_detail) list option"

record source =
  name :: "string option"
  url :: "string option"

record discipline =
  discipline_sources :: "string list option"

record dataset =
  charts :: "(string \<times> chart) list"
  sources :: "(string \<times> source) list"
  disciplines :: "(string \<times> discipline) list"

record insight =
  chartKey :: string
  label :: string

record selection_state =
  selectedInsight :: "insight option"
  selectedDiscipline :: "string option"
  sourceFilter :: string

text \<open>What the page shows: the insight drawer, and the items of the source list.\<close>

record source_block =
  href :: string
  link_text :: string
  as_of :: string

record drawer =
  headlineEl :: string
  interpretationEl :: string
  whyEl :: string
  implicationsEl :: "string list"
  teachingEl :: string
  sourceEl :: "source_block option"

datatype list_item = Note string | Anchor string string

text \<open>
  The effects of the program on the browser, in the order they happen: the fragment
  written by \<open>history.replaceState\<close>, the value stored under the local-storage key
  \<open>selectedDiscipline\<close>, a chart created or updated, and the three regions rendered.
\<close>

datatype effect =
    HashWritten string
  | StorageWritten string
  | ChartCreated string
  | ChartUpdated string
  | DrawerRendered drawer
  | DisciplineRendered string
  | SourcesRendered "list_item list"

text \<open>
  The world is the global \<open>state\<close>, what \<open>location.hash\<close> returns, the value stored
  under \<open>selectedDiscipline\<close> in local storage, the keys of the global \<open>charts\<close> object
  (the chart instances, in the order they were created) and the effects so far.
\<close>

record world =
  state :: selection_state
  location_hash :: string
  localStorage :: "string option"
  charts_registry :: "string list"
  log :: "effect list"

definition initial_state :: selection_state where
  "initial_state = \<lparr>selectedInsight = None, selectedDiscipline = None, sourceFilter = ''selection''\<rparr>"

definition page_load :: "string \<Rightarrow> string option \<Rightarrow> world" where
  "page_load h ls =
     \<lparr>state = initial_state, location_hash = h, localStorage = ls, charts_registry = [], log = []\<rparr>"

section \<open>The hash codec\<close>

definition getSelectionKey :: "string \<Rightarrow> string \<Rightarrow> string" where
  "getSelectionKey c l = c @ ''::'' @ l"

definition hashString :: "selection_state \<Rightarrow> string" where
  "hashString s =
     (let params = [];
          params = (case selectedDiscipline s of
                      None \<Rightarrow> params
                    | Some d \<Rightarrow> if d \<noteq> [] then params_set params ''discipline'' d else params);
          params = (case selectedInsight s of
                      None \<Rightarrow> params
                    | Some i \<Rightarrow> params_set (params_set params ''chart'' (chartKey i)) ''label'' (label i))
      in params_toString params)"

text \<open>\<open>history.replaceState\<close> is given the path and query unchanged, followed by \<open>#\<close> and
  \<open>hashString\<close> when that is not empty. The serializer's output holds no byte the URL
  parser would rewrite in a fragment, so this is what \<open>location.hash\<close> returns next.\<close>

definition hash_fragment :: "selection_state \<Rightarrow> string" where
  "hash_fragment s = (let h = hashString s in if h \<noteq> [] then CHR ''#'' # h else [])"

definition updateHash :: "world \<Rightarrow> world" where
  "updateHash w =
     (let frag = hash_fragment (state w)
      in w\<lparr>location_hash := frag, log := log w @ [HashWritten frag]\<rparr>)"

definition strip_hash :: "string \<Rightarrow> string" where
  "strip_hash h = (case h of [] \<Rightarrow> [] | c # rest \<Rightarrow> if c = CHR ''#'' then rest else h)"

definition applyStateFromHash :: "world \<Rightarrow> world" where
  "applyStateFromHash w =
     (let params = new_URLSearchParams (strip_hash (location_hash w));
          disciplineParam = params_get params ''discipline'';
          chartParam = params_get params ''chart'';
          labelParam = params_get params ''label'';
          s = state w;
          s = (if truthy disciplineParam then s\<lparr>selectedDiscipline := disciplineParam\<rparr>
               else s\<lparr>selectedDiscipline := (if truthy (localStorage w) then localStorage w else None)\<rparr>);
          s = (case (chartParam, labelParam) of
                 (Some c, Some l) \<Rightarrow>
                   if c \<noteq> [] \<and> l \<noteq> [] then s\<lparr>selectedInsight := Some \<lparr>chartKey = c, label = l\<rparr>\<rparr> else s
               | _ \<Rightarrow> s)
      in w\<lparr>state := s\<rparr>)"

section \<open>The source list and the insight drawer\<close>

text \<open>\<open>Set.prototype.add\<close>: a set keeps its elements in insertion order.\<close>

definition set_add :: "string list \<Rightarrow> string \<Rightarrow> string list" where
  "set_add xs x = (if x \<in> set xs then xs else xs @ [x])"

definition getSelectedSourceIds :: "dataset \<Rightarrow> selection_state \<Rightarrow> string list" where
  "getSelectedSourceIds d s =
     (let set0 = [];
          set1 = (case selectedInsight s of
                    None \<Rightarrow> set0
                  | Some i \<Rightarrow>
                      (case map_of (charts d) (chartKey i) of
                         None \<Rightarrow> set0
                       | Some ch \<Rightarrow>
                           (case sourceId ch of
                              None \<Rightarrow> set0
                            | Some sid \<Rightarrow> if sid \<noteq> [] then set_add set0 sid else set0)));
          set2 = (case selectedDiscipline s of
                    None \<Rightarrow> set1
                  | Some n \<Rightarrow>
                      if n = [] then set1
                      else (case map_of (disciplines d) n of
                              None \<Rightarrow> set1
                            | Some disc \<Rightarrow>
                                foldl set_add set1
                                  (case discipline_sources disc of None \<Rightarrow> [] | Some ids \<Rightarrow> ids)))
      in set2)"

text \<open>The local \<open>sourceIds\<close> of \<open>renderSources\<close>, and the list items it appends.\<close>

definition sourceIds :: "dataset \<Rightarrow> selection_state \<Rightarrow> string list" where
  "sourceIds d s =
     (if sourceFilter s = ''all'' then map fst (sources d) else getSelectedSourceIds d s)"

definition source_item :: "dataset \<Rightarrow> string \<Rightarrow> list_item list" where
  "source_item d sid =
     (case map_of (sources d) sid of
        None \<Rightarrow> []
      | Some src \<Rightarrow>
          [Anchor (case url src of None \<Rightarrow> ''#'' | Some u \<Rightarrow> u)
                  (case name src of None \<Rightarrow> sid | Some n \<Rightarrow> n)])"

definition sources_list :: "dataset \<Rightarrow> selection_state \<Rightarrow> list_item list" where
  "sources_list d s =
     (if sourceIds d s = [] then [Note ''No sources tied to the current selection yet.'']
      else concat (map (source_item d) (sourceIds d s)))"

definition renderSources :: "dataset \<Rightarrow> world \<Rightarrow> world" where
  "renderSources d w = w\<lparr>log := log w @ [SourcesRendered (sources_list d (state w))]\<rparr>"

definition message_drawer :: "string \<Rightarrow> drawer" where
  "message_drawer msg =
     \<lparr>headlineEl = msg, interpretationEl = [], whyEl = [], implicationsEl = [],
      teachingEl = [], sourceEl = None\<rparr>"

text \<open>The locals \<open>chartObj\<close>, \<open>detail\<close> and \<open>source\<close> of \<open>renderInsightDrawer\<close>. A read of
  \<open>sources[undefined]\<close> is a read of the key \<open>"undefined"\<close>.\<close>

definition chartObj :: "dataset \<Rightarrow> insight \<Rightarrow> chart option" where
  "chartObj d i = map_of (charts d) (chartKey i)"

definition detail :: "dataset \<Rightarrow> insight \<Rightarrow> drilldown_detail option" where
  "detail d i =
     (case chartObj d i of
        None \<Rightarrow> None
      | Some ch \<Rightarrow> (case drilldown ch of None \<Rightarrow> None | Some dd \<Rightarrow> map_of dd (label i)))"

definition chartSourceId :: "dataset \<Rightarrow> insight \<Rightarrow> string option" where
  "chartSourceId d i = (case chartObj d i of None \<Rightarrow> None | Some ch \<Rightarrow> sourceId ch)"

definition source_of :: "dataset \<Rightarrow> insight \<Rightarrow> source option" where
  "source_of d i =
     map_of (sources d) (case chartSourceId d i of None \<Rightarrow> ''undefined'' | Some k \<Rightarrow> k)"

definition insight_drawer :: "dataset \<Rightarrow> selection_state \<Rightarrow> drawer" where
  "insight_drawer d s =
     (case selectedInsight s of
        None \<Rightarrow> message_drawer ''Select a chart point, bar, or slice to view a focused insight.''
      | Some i \<Rightarrow>
          (case detail d i of
             None \<Rightarrow> message_drawer ''No drill-down details available for this selection.''
           | Some det \<Rightarrow>
               \<lparr>headlineEl = headline det,
                interpretationEl = interpretationText det,
                whyEl = whyItMatters det,
                implicationsEl = (case implications det of None \<Rightarrow> [] | Some xs \<Rightarrow> xs),
                teachingEl = teachingFocus det,
                sourceEl = Some
                  \<lparr>href = (case source_of d i of
                             None \<Rightarrow> ''#''
                           | Some sr \<Rightarrow> (case url sr of None \<Rightarrow> ''#'' | Some u \<Rightarrow> u)),
                   link_text =
                     (case (case source_of d i of None \<Rightarrow> None | Some sr \<Rightarrow> name sr) of
                        Some n \<Rightarrow> n
                      | None \<Rightarrow> (case chartSourceId d i of Some k \<Rightarrow> k | None \<Rightarrow> ''Unknown source'')),
                   as_of = (case (case chartObj d i of None \<Rightarrow> None | Some ch \<Rightarrow> asOfDate ch) of
                              None \<Rightarrow> ''n/a''
                            | Some a \<Rightarrow> a)\<rparr>\<rparr>))"

definition renderInsightDrawer :: "dataset \<Rightarrow> world \<Rightarrow> world" where
  "renderInsightDrawer d w =
     renderSources d (w\<lparr>log := log w @ [DrawerRendered (insight_drawer d (state w))]\<rparr>)"

section \<open>The mutators\<close>

definition updateAllChartStyles :: "world \<Rightarrow> world" where
  "updateAllChartStyles w = w\<lparr>log := log w @ map ChartUpdated (charts_registry w)\<rparr>"

definition handleSelection :: "string \<Rightarrow> string \<Rightarrow> dataset \<Rightarrow> world \<Rightarrow> world" where
  "handleSelection c l d w =
     (let sameSelection =
            (case selectedInsight (state w) of
               None \<Rightarrow> False
             | Some i \<Rightarrow> getSelectionKey (chartKey i) (label i) = getSelectionKey c l);
          w = w\<lparr>state := (state w)\<lparr>selectedInsight :=
                  (if sameSelection then None else Some \<lparr>chartKey = c, label = l\<rparr>)\<rparr>\<rparr>
      in renderInsightDrawer d (updateAllChartStyles (updateHash w)))"

text \<open>The two handlers of \<open>wireControls\<close> that write the state.\<close>

definition clearSelectionClick :: "dataset \<Rightarrow> world \<Rightarrow> world" where
  "clearSelectionClick d w =
     (let w = w\<lparr>state := (state w)\<lparr>selectedInsight := None\<rparr>\<rparr>
      in renderInsightDrawer d (updateAllChartStyles (updateHash w)))"

definition sourcesFilterChange :: "string \<Rightarrow> dataset \<Rightarrow> world \<Rightarrow> world" where
  "sourcesFilterChange v d w = renderSources d (w\<lparr>state := (state w)\<lparr>sourceFilter := v\<rparr>\<rparr>)"

definition showDiscipline :: "dataset \<Rightarrow> string \<Rightarrow> world \<Rightarrow> world" where
  "showDiscipline d n w =
     (case map_of (disciplines d) n of
        None \<Rightarrow> w
      | Some disc \<Rightarrow>
          (let w = w\<lparr>state := (state w)\<lparr>selectedDiscipline := Some n\<rparr>\<rparr>;
               w = w\<lparr>localStorage := Some n, log := log w @ [StorageWritten n]\<rparr>;
               w = updateHash w;
               w = w\<lparr>log := log w @ [DisciplineRendered n]\<rparr>
           in renderSources d w))"

section \<open>Initialization\<close>

definition renderDisciplineView :: "dataset \<Rightarrow> world \<Rightarrow> world" where
  "renderDisciplineView d w =
     (let ds = map fst (disciplines d)
      in if ds = [] then w
         else showDiscipline d
                (case selectedDiscipline (state w) of
                   None \<Rightarrow> hd ds
                 | Some n \<Rightarrow> if n \<in> set ds then n else hd ds) w)"

text \<open>\<open>createLineChart\<close>, \<open>createBarChart\<close> and \<open>createDonutChart\<close> differ in the chart
  key and in the drawing options only.\<close>

definition createChart :: "string \<Rightarrow> dataset \<Rightarrow> world \<Rightarrow> world" where
  "createChart k d w =
     (case map_of (charts d) k of
        None \<Rightarrow> w
      | Some ch \<Rightarrow> w\<lparr>charts_registry := set_add (charts_registry w) k, log := log w @ [ChartCreated k]\<rparr>)"

text \<open>\<open>init\<close> also calls \<open>setHero\<close>, \<open>renderCoreSkills\<close> and \<open>renderJobFamilyExplorer\<close>, which
  fill regions of the page from the dataset alone and read or write nothing of the world
  above, and \<open>wireControls\<close>, which registers the handlers.\<close>

definition init :: "dataset \<Rightarrow> world \<Rightarrow> world" where
  "init d w =
     (let w = applyStateFromHash w;
          w = createChart ''aiMentionsTrend'' d w;
          w = createChart ''aiMentionsByFamily'' d w;
          w = createChart ''aiOutsideITShare'' d w;
          w = renderInsightDrawer d w;
          w = renderDisciplineView d w;
          w = renderSources d w
      in if selectedInsight (state w) \<noteq> None then updateAllChartStyles w else w)"

text \<open>
  The states the page can reach. It is loaded with some fragment and some stored
  discipline and runs \<open>init\<close>; afterwards every step is one of the handlers. A chart's
  \<open>onClick\<close> exists once the chart is created and calls
  \<open>handleSelection(key, labels[idx])\<close> for the index of a drawn element; a discipline button
  exists for each key of \<open>disciplines\<close>.
\<close>

inductive reachable :: "dataset \<Rightarrow> string \<Rightarrow> string option \<Rightarrow> world \<Rightarrow> bool"
  for d :: dataset and h :: string and ls :: "string option" where
  boot: "reachable d h ls (init d (page_load h ls))"
| chart_click:
    "reachable d h ls w \<Longrightarrow> k \<in> set (charts_registry w) \<Longrightarrow> map_of (charts d) k = Some ch \<Longrightarrow>
     idx < length (labels ch) \<Longrightarrow> reachable d h ls (handleSelection k (labels ch ! idx) d w)"
| clear_click: "reachable d h ls w \<Longrightarrow> reachable d h ls (clearSelectionClick d w)"
| filter_change: "reachable d h ls w \<Longrightarrow> reachable d h ls (sourcesFilterChange v d w)"
| discipline_click:
    "reachable d h ls w \<Longrightarrow> n \<in> set (map fst (disciplines d)) \<Longrightarrow>
     reachable d h ls (showDiscipline d n w)"

text \<open>The state right after \<open>applyStateFromHash\<close> at page load, and after \<open>init\<close>.\<close>

definition seeded_state :: "string \<Rightarrow> string option \<Rightarrow> selection_state" where
  "seeded_state h ls = state (applyStateFromHash (page_load h ls))"

definition booted_state :: "dataset \<Rightarrow> string \<Rightarrow> string option \<Rightarrow> selection_state" where
  "booted_state d h ls = state (init d (page_load h ls))"

section \<open>The data validator and the boot chain\<close>

text \<open>
  The validator runs on what \<open>response.json()\<close> returns, any JSON value. A number is
  modelled by an integer: the validator only asks whether it is zero. \<open>undefined\<close>, the
  value of a missing property, is \<open>None\<close>. Reading a property of \<open>null\<close> throws a
  \<open>TypeError\<close>; reading one of the validator's property names from a boolean, a number, a
  string or an array gives \<open>undefined\<close>.
\<close>

datatype json =
    JNull
  | JBool bool
  | JNum int
  | JStr string
  | JArr "json list"
  | JObj "(string \<times> json) list"

datatype js_error = TypeError | Error string

fun truthy_js :: "json option \<Rightarrow> bool" where
  "truthy_js None = False"
| "truthy_js (Some JNull) = False"
| "truthy_js (Some (JBool b)) = b"
| "truthy_js (Some (JNum n)) = (n \<noteq> 0)"
| "truthy_js (Some (JStr s)) = (s \<noteq> [])"
| "truthy_js (Some (JArr xs)) = True"
| "truthy_js (Some (JObj kvs)) = True"

fun typeof_object :: "json option \<Rightarrow> bool" where
  "typeof_object (Some JNull) = True"
| "typeof_object (Some (JArr xs)) = True"
| "typeof_object (Some (JObj kvs)) = True"
| "typeof_object v = False"

fun isArray :: "json option \<Rightarrow> bool" where
  "isArray (Some (JArr xs)) = True"
| "isArray v = False"

text \<open>\<open>v.k\<close> on a parsed value, and \<open>v?.k\<close> on a value that may be \<open>undefined\<close>.\<close>

fun get_property :: "json \<Rightarrow> string \<Rightarrow> js_error + json option" where
  "get_property JNull k = Inl TypeError"
| "get_property (JObj kvs) k = Inr (map_of kvs k)"
| "get_property v k = Inr None"

fun opt_chain :: "json option \<Rightarrow> string \<Rightarrow> json option" where
  "opt_chain (Some (JObj kvs)) k = map_of kvs k"
| "opt_chain v k = None"

definition bind :: "js_error + 'a \<Rightarrow> ('a \<Rightarrow> js_error + 'b) \<Rightarrow> js_error + 'b" where
  "bind m f = (case m of Inl e \<Rightarrow> Inl e | Inr x \<Rightarrow> f x)"

text \<open>The validator, statement by statement. A condition that reads the same property of
  \<open>data\<close> more than once reads it once here: the reads have no effect and give the same
  value.\<close>

definition validateDataShape :: "json \<Rightarrow> js_error + string list" where
  "validateDataShape data =
     (let errors = [];
          errors = (if \<not> truthy_js (Some data) \<or> \<not> typeof_object (Some data)
                    then errors @ [''Dashboard data is not a valid object.''] else errors)
      in bind (get_property data ''takeaway'') (\<lambda>takeaway.
         let errors = (if \<not> truthy_js (opt_chain takeaway ''headline'')
                       then errors @ [''Missing takeaway.headline.''] else errors)
         in bind (get_property data ''coreSkills'') (\<lambda>coreSkills.
         let errors = (if \<not> isArray coreSkills
                       then errors @ [''Missing coreSkills array.''] else errors)
         in bind (get_property data ''charts'') (\<lambda>charts1.
         let errors = (if \<not> truthy_js (opt_chain (opt_chain charts1 ''aiMentionsTrend'') ''sourceId'')
                       then errors @ [''Missing charts.aiMentionsTrend source metadata.''] else errors)
         in bind (get_property data ''charts'') (\<lambda>charts2.
         let errors = (if \<not> truthy_js (opt_chain (opt_chain charts2 ''aiMentionsByFamily'') ''sourceId'')
                       then errors @ [''Missing charts.aiMentionsByFamily source metadata.''] else errors)
         in bind (get_property data ''charts'') (\<lambda>charts3.
         let errors = (if \<not> truthy_js (opt_chain (opt_chain charts3 ''aiOutsideITShare'') ''sourceId'')
                       then errors @ [''Missing charts.aiOutsideITShare source metadata.''] else errors)
         in bind (get_property data ''sources'') (\<lambda>sourcesV.
         let errors = (if \<not> truthy_js sourcesV \<or> \<not> typeof_object sourcesV \<or> isArray sourcesV
                       then errors @ [''sources must be an object keyed by sourceId.''] else errors)
         in bind (get_property data ''disciplines'') (\<lambda>disciplinesV.
         let errors = (if \<not> truthy_js disciplinesV \<or> \<not> typeof_object disciplinesV
                       then errors @ [''Missing disciplines object.''] else errors)
         in Inr errors))))))))"

text \<open>The \<open>then\<close>/\<open>catch\<close> chain after \<open>loadData\<close>: the texts given to \<open>showAlert\<close>, in
  order (each replaces the one before), and whether \<open>init\<close> was called.\<close>

datatype alert =
    ValidationProblem string
  | CouldNotInitialize js_error

record boot_result =
  alerts :: "alert list"
  init_called :: bool

definition boot_chain :: "json \<Rightarrow> boot_result" where
  "boot_chain data =
     (case validateDataShape data of
        Inl e \<Rightarrow> \<lparr>alerts = [CouldNotInitialize e], init_called = False\<rparr>
      | Inr issues \<Rightarrow>
          if issues \<noteq> []
          then \<lparr>alerts = [ValidationProblem (join '' '' issues),
                         CouldNotInitialize (Error (join '' '' issues))],
                init_called = False\<rparr>
          else \<lparr>alerts = [], init_called = True\<rparr>)"

section \<open>What the specification says\<close>

text \<open>The invariant of the selection state against the dataset.\<close>

definition valid_insight :: "dataset \<Rightarrow> insight \<Rightarrow> bool" where
  "valid_insight d i =
     (case map_of (charts d) (chartKey i) of None \<Rightarrow> False | Some ch \<Rightarrow> label i \<in> set (labels ch))"

definition valid_discipline :: "dataset \<Rightarrow> string \<Rightarrow> bool" where
  "valid_discipline d n = (n \<in> set (map fst (disciplines d)))"

definition selection_invariant :: "dataset \<Rightarrow> selection_state \<Rightarrow> bool" where
  "selection_invariant d s =
     ((case selectedInsight s of None \<Rightarrow> True | Some i \<Rightarrow> valid_insight d i)
      \<and> (case selectedDiscipline s of None \<Rightarrow> True | Some n \<Rightarrow> valid_discipline d n))"




definition hash_param :: "string \<Rightarrow> string \<Rightarrow> string option" where
  "hash_param h k = params_get (new_URLSearchParams (strip_hash h)) k"



text \<open>The validator's checks. \<open>member\<close> is a member of a JSON object, absent from any other
  value; a keyed mapping is a JSON object, a sequence a JSON array. \<open>checks_as_stated\<close>
  reads the checks as the specification lists them, \<open>checks_as_coded\<close> differs in the last
  one.\<close>

definition member :: "json \<Rightarrow> string \<Rightarrow> json option" where
  "member data k = (case data of JObj kvs \<Rightarrow> map_of kvs k | _ \<Rightarrow> None)"






text \<open>The array the validator returns when no read throws.\<close>

definition issues :: "json \<Rightarrow> string list" where
  "issues data =
     (if \<not> truthy_js (Some data) \<or> \<not> typeof_object (Some data)
      then [''Dashboard data is not a valid object.''] else [])
     @ (if \<not> truthy_js (opt_chain (member data ''takeaway'') ''headline'')
        then [''Missing takeaway.headline.''] else [])
     @ (if \<not> isArray (member data ''coreSkills'')
        then [''Missing coreSkills array.''] else [])
     @ (if \<not> truthy_js (opt_chain (opt_chain (member data ''charts'') ''aiMentionsTrend'') ''sourceId'')
        then [''Missing charts.aiMentionsTrend source metadata.''] else [])
     @ (if \<not> truthy_js (opt_chain (opt_chain (member data ''charts'') ''aiMentionsByFamily'') ''sourceId'')
        then [''Missing charts.aiMentionsByFamily source metadata.''] else [])
     @ (if \<not> truthy_js (opt_chain (opt_chain (member data ''charts'') ''aiOutsideITShare'') ''sourceId'')
        then [''Missing charts.aiOutsideITShare source metadata.''] else [])
     @ (if \<not> truthy_js (member data ''sources'') \<or> \<not> typeof_object (member data ''sources'')
           \<or> isArray (member data ''sources'')
        then [''sources must be an object keyed by sourceId.''] else [])
     @ (if \<not> truthy_js (member data ''disciplines'') \<or> \<not> typeof_object (member data ''disciplines'')
        then [''Missing disciplines object.''] else [])"

section \<open>Example inputs\<close>

definition example_data :: dataset where
  "example_data =
     \<lparr>charts =
        [(''aiMentionsTrend'',
            \<lparr>labels = [''2024-Q1'', ''x::y''], sourceId = Some ''lightcast'', asOfDate = Some ''2025-12'',
             drilldown = Some [(''2024-Q1'',
               \<lparr>headline = ''H1'', interpretationText = ''I1'', whyItMatters = ''W1'',
                implications = Some [''a'', ''b''], teachingFocus = ''T1''\<rparr>)]\<rparr>),
         (''aiMentionsByFamily'',
            \<lparr>labels = [''Nursing'', ''Business''], sourceId = Some ''bls'', asOfDate = None,
             drilldown = None\<rparr>),
         (''aiOutsideITShare'',
            \<lparr>labels = [''IT'', ''Other''], sourceId = Some ''ghost'', asOfDate = None,
             drilldown = Some [(''IT'',
               \<lparr>headline = ''H3'', interpretationText = ''I3'', whyItMatters = ''W3'',
                implications = None, teachingFocus = ''T3''\<rparr>)]\<rparr>)],
      sources =
        [(''lightcast'', \<lparr>name = Some ''Lightcast'', url = Some ''https://lightcast.io''\<rparr>),
         (''bls'', \<lparr>name = None, url = None\<rparr>)],
      disciplines =
        [(''Nursing'', \<lparr>discipline_sources = Some [''bls'', ''lightcast'', ''bls'']\<rparr>),
         (''Business'', \<lparr>discipline_sources = None\<rparr>)]\<rparr>"

definition empty_data :: dataset where
  "empty_data = \<lparr>charts = [], sources = [], disciplines = []\<rparr>"



definition example_state :: "insight option \<Rightarrow> string option \<Rightarrow> string \<Rightarrow> selection_state" where
  "example_state i n f = \<lparr>selectedInsight = i, selectedDiscipline = n, sourceFilter = f\<rparr>"

section \<open>The codec of URLSearchParams\<close>





















section \<open>The state after each operation\<close>

lemma state_updateHash [simp]: "state (updateHash w) = state w"
  by (simp add: updateHash_def Let_def)

lemma state_updateAllChartStyles [simp]: "state (updateAllChartStyles w) = state w"
  by (simp add: updateAllChartStyles_def)

lemma state_renderSources [simp]: "state (renderSources d w) = state w"
  by (simp add: renderSources_def)

lemma state_renderInsightDrawer [simp]: "state (renderInsightDrawer d w) = state w"
  by (simp add: renderInsightDrawer_def)

lemma state_createChart [simp]: "state (createChart k d w) = state w"
  by (simp add: createChart_def split: option.split)

lemma state_handleSelection:
  "state (handleSelection c l d w) =
     (state w)\<lparr>selectedInsight :=
        (if (case selectedInsight (state w) of
               None \<Rightarrow> False
             | Some i \<Rightarrow> getSelectionKey (chartKey i) (label i) = getSelectionKey c l)
         then None else Some \<lparr>chartKey = c, label = l\<rparr>)\<rparr>"
  by (simp add: handleSelection_def Let_def)

lemma state_clearSelectionClick: "state (clearSelectionClick d w) = (state w)\<lparr>selectedInsight := None\<rparr>"
  by (simp add: clearSelectionClick_def Let_def)

lemma state_sourcesFilterChange: "state (sourcesFilterChange v d w) = (state w)\<lparr>sourceFilter := v\<rparr>"
  by (simp add: sourcesFilterChange_def)

lemma state_showDiscipline:
  "state (showDiscipline d n w) =
     (case map_of (disciplines d) n of None \<Rightarrow> state w | Some disc \<Rightarrow> (state w)\<lparr>selectedDiscipline := Some n\<rparr>)"
  by (simp add: showDiscipline_def Let_def split: option.split)

lemma state_renderDisciplineView:
  "state (renderDisciplineView d w) =
     (if disciplines d = [] then state w
      else (state w)\<lparr>selectedDiscipline := Some
              (case selectedDiscipline (state w) of
                 None \<Rightarrow> fst (hd (disciplines d))
               | Some n \<Rightarrow> if n \<in> fst ` set (disciplines d) then n else fst (hd (disciplines d)))\<rparr>)"
proof (cases "disciplines d")
  case Nil
  then show ?thesis by (simp add: renderDisciplineView_def)
next
  case (Cons a ds)
  have key: "\<And>n. n \<in> fst ` set (disciplines d) \<Longrightarrow> map_of (disciplines d) n \<noteq> None"
    by (simp add: map_of_eq_None_iff)
  have hdkey: "fst a \<in> fst ` set (disciplines d)" using Cons by simp
  show ?thesis
    using Cons key [OF hdkey] key
    by (auto simp add: renderDisciplineView_def state_showDiscipline Let_def split: option.split)
qed

lemma state_init:
  "state (init d w) =
     (let s = state (applyStateFromHash w)
      in if disciplines d = [] then s
         else s\<lparr>selectedDiscipline := Some
                 (case selectedDiscipline s of
                    None \<Rightarrow> fst (hd (disciplines d))
                  | Some n \<Rightarrow> if n \<in> fst ` set (disciplines d) then n else fst (hd (disciplines d)))\<rparr>)"
  by (simp add: init_def Let_def state_renderDisciplineView)

lemma state_applyStateFromHash:
  "state (applyStateFromHash w) =
     (state w)\<lparr>selectedDiscipline :=
                  (if truthy (hash_param (location_hash w) ''discipline'')
                   then hash_param (location_hash w) ''discipline''
                   else if truthy (localStorage w) then localStorage w else None),
                selectedInsight :=
                  (case (hash_param (location_hash w) ''chart'', hash_param (location_hash w) ''label'') of
                     (Some c, Some l) \<Rightarrow>
                       if c \<noteq> [] \<and> l \<noteq> [] then Some \<lparr>chartKey = c, label = l\<rparr>
                       else selectedInsight (state w)
                   | _ \<Rightarrow> selectedInsight (state w))\<rparr>"
  by (simp add: applyStateFromHash_def hash_param_def Let_def split: option.split)

text \<open>Unfolding these evaluates the parser and the serializer on a literal.\<close>

lemmas eval_parse =
  hash_param_def strip_hash_def new_URLSearchParams_def form_parse_def parse_pair_def
  plus_to_space_def is_hex_def hex_val_def char_of_def bit_0 bit_Suc params_get_def


section \<open>The selection store\<close>

text \<open>The selection key joins chart key and label with \<open>::\<close>. Two pairs whose chart keys hold
  no colon have the same key only when they are equal; then \<open>handleSelection\<close> toggles by
  value.\<close>

lemma getSelectionKey_plain:
  assumes "CHR '':'' \<notin> set c" "CHR '':'' \<notin> set c'"
  shows "getSelectionKey c l = getSelectionKey c' l' \<longleftrightarrow> c = c' \<and> l = l'"
proof
  assume eq: "getSelectionKey c l = getSelectionKey c' l'"
  have "takeWhile (\<lambda>x. x \<noteq> CHR '':'') (getSelectionKey c l) = c"
    using assms(1) by (auto simp add: getSelectionKey_def takeWhile_tail)
  moreover have "takeWhile (\<lambda>x. x \<noteq> CHR '':'') (getSelectionKey c' l') = c'"
    using assms(2) by (auto simp add: getSelectionKey_def takeWhile_tail)
  ultimately have "c = c'" using eq by simp
  with eq show "c = c' \<and> l = l'" by (simp add: getSelectionKey_def)
qed simp

lemma handleSelection_toggle_plain_keys:
  assumes "CHR '':'' \<notin> set c"
    and "\<And>i. selectedInsight (state w) = Some i \<Longrightarrow> CHR '':'' \<notin> set (chartKey i)"
  shows "selectedInsight (state (handleSelection c l d w)) =
           (if selectedInsight (state w) = Some \<lparr>chartKey = c, label = l\<rparr> then None
            else Some \<lparr>chartKey = c, label = l\<rparr>)"
proof (cases "selectedInsight (state w)")
  case None
  then show ?thesis by (simp add: state_handleSelection)
next
  case (Some i)
  have "getSelectionKey (chartKey i) (label i) = getSelectionKey c l \<longleftrightarrow> i = \<lparr>chartKey = c, label = l\<rparr>"
    using getSelectionKey_plain [OF assms(2) [OF Some] assms(1), of "label i" l]
    by (cases i) auto
  with Some show ?thesis by (simp add: state_handleSelection)
qed

text \<open>
  C1 (toggle, as the code has it at a key collision). The page is opened with the fragment
  \<open>chart=aiMentionsTrend%3A%3Ax&label=y\<close>, which seeds the selection
  \<open>{chartKey: "aiMentionsTrend::x", label: "y"}\<close>. A click on the trend chart's element
  labelled \<open>x::y\<close> calls \<open>handleSelection("aiMentionsTrend", "x::y")\<close>: the two pairs differ,
  their selection keys are both \<open>aiMentionsTrend::x::y\<close>, and the selection is cleared
  instead of moving to the clicked element.
\<close>

theorem handleSelection_key_collision:
  "selectedInsight (state (init example_data (page_load ''#chart=aiMentionsTrend%3A%3Ax&label=y'' None)))
     = Some \<lparr>chartKey = ''aiMentionsTrend::x'', label = ''y''\<rparr>
   \<and> selectedInsight (state (handleSelection ''aiMentionsTrend'' ''x::y'' example_data
         (init example_data (page_load ''#chart=aiMentionsTrend%3A%3Ax&label=y'' None)))) = None"
proof -
  have "selectedInsight (state (init example_data (page_load ''#chart=aiMentionsTrend%3A%3Ax&label=y'' None)))
     = Some \<lparr>chartKey = ''aiMentionsTrend::x'', label = ''y''\<rparr>"
    by (simp add: state_init state_applyStateFromHash page_load_def initial_state_def
        example_data_def truthy_def eval_parse Let_def)
  then show ?thesis
    by (simp add: state_handleSelection getSelectionKey_def)
qed

text \<open>
  C9 (frame). \<open>handleSelection\<close> and the clear-selection handler change no field of the
  selection state other than \<open>selectedInsight\<close>: the selected discipline and the source
  filter are those of the state before.
\<close>

theorem selection_frame:
  "state (handleSelection c l d w)
     = (state w)\<lparr>selectedInsight := selectedInsight (state (handleSelection c l d w))\<rparr>
   \<and> selectedDiscipline (state (handleSelection c l d w)) = selectedDiscipline (state w)
   \<and> sourceFilter (state (handleSelection c l d w)) = sourceFilter (state w)
   \<and> state (clearSelectionClick d w)
     = (state w)\<lparr>selectedInsight := selectedInsight (state (clearSelectionClick d w))\<rparr>
   \<and> selectedDiscipline (state (clearSelectionClick d w)) = selectedDiscipline (state w)
   \<and> sourceFilter (state (clearSelectionClick d w)) = sourceFilter (state w)"
  by (simp add: state_handleSelection state_clearSelectionClick)

section \<open>The hash round trip\<close>







lemma localStorage_updateHash [simp]: "localStorage (updateHash w) = localStorage w"
  by (simp add: updateHash_def Let_def)





section \<open>The source aggregator\<close>






text \<open>The example dataset, field by field.\<close>

lemma example_state_fields [simp]:
  "selectedInsight (example_state i n f) = i"
  "selectedDiscipline (example_state i n f) = n"
  "sourceFilter (example_state i n f) = f"
  by (simp_all add: example_state_def)


lemma example_data_disciplines:
  "disciplines example_data =
     [(''Nursing'', \<lparr>discipline_sources = Some [''bls'', ''lightcast'', ''bls'']\<rparr>),
      (''Business'', \<lparr>discipline_sources = None\<rparr>)]"
  by (simp add: example_data_def)

lemma example_data_charts:
  "map_of (charts example_data) ''aiMentionsTrend'' = Some
     \<lparr>labels = [''2024-Q1'', ''x::y''], sourceId = Some ''lightcast'', asOfDate = Some ''2025-12'',
      drilldown = Some [(''2024-Q1'',
        \<lparr>headline = ''H1'', interpretationText = ''I1'', whyItMatters = ''W1'',
         implications = Some [''a'', ''b''], teachingFocus = ''T1''\<rparr>)]\<rparr>"
  "map_of (charts example_data) ''aiMentionsByFamily'' = Some
     \<lparr>labels = [''Nursing'', ''Business''], sourceId = Some ''bls'', asOfDate = None, drilldown = None\<rparr>"
  "map_of (charts example_data) ''aiOutsideITShare'' = Some
     \<lparr>labels = [''IT'', ''Other''], sourceId = Some ''ghost'', asOfDate = None,
      drilldown = Some [(''IT'',
        \<lparr>headline = ''H3'', interpretationText = ''I3'', whyItMatters = ''W3'',
         implications = None, teachingFocus = ''T3''\<rparr>)]\<rparr>"
  by (simp_all add: example_data_def)







section \<open>The drilldown resolver\<close>





section \<open>The effects of the mutators\<close>



lemma log_renderSources: "log (renderSources d w) = log w @ [SourcesRendered (sources_list d (state w))]"
  by (simp add: renderSources_def)


lemma charts_registry_steps [simp]:
  "charts_registry (updateHash w) = charts_registry w"
  "charts_registry (updateAllChartStyles w) = charts_registry w"
  "charts_registry (renderSources d w) = charts_registry w"
  "charts_registry (renderInsightDrawer d w) = charts_registry w"
  by (simp_all add: updateHash_def updateAllChartStyles_def renderSources_def
      renderInsightDrawer_def Let_def)

lemma location_hash_steps [simp]:
  "location_hash (updateAllChartStyles w) = location_hash w"
  "location_hash (renderSources d w) = location_hash w"
  "location_hash (renderInsightDrawer d w) = location_hash w"
  by (simp_all add: updateAllChartStyles_def renderSources_def renderInsightDrawer_def)




text \<open>More of the example inputs.\<close>

lemma example_data_no_chart:
  "map_of (charts example_data) ''trendChart'' = None"
  "map_of (charts example_data) ''bogus'' = None"
  by (simp_all add: example_data_def)

lemma example_state_update [simp]:
  "(example_state i n f)\<lparr>sourceFilter := v\<rparr> = example_state i n v"
  "(example_state i n f)\<lparr>selectedDiscipline := m\<rparr> = example_state i m f"
  "(example_state i n f)\<lparr>selectedInsight := j\<rparr> = example_state j n f"
  by (simp_all add: example_state_def)




section \<open>Boot seeding\<close>

lemma seeded_state_eq:
  "seeded_state h ls =
     \<lparr>selectedInsight =
        (case (hash_param h ''chart'', hash_param h ''label'') of
           (Some c, Some l) \<Rightarrow> if c \<noteq> [] \<and> l \<noteq> [] then Some \<lparr>chartKey = c, label = l\<rparr> else None
         | _ \<Rightarrow> None),
      selectedDiscipline =
        (if truthy (hash_param h ''discipline'') then hash_param h ''discipline''
         else if truthy ls then ls else None),
      sourceFilter = ''selection''\<rparr>"
  by (simp add: seeded_state_def state_applyStateFromHash page_load_def initial_state_def
      split: option.split)

lemma booted_state_eq:
  "booted_state d h ls =
     (if disciplines d = [] then seeded_state h ls
      else (seeded_state h ls)\<lparr>selectedDiscipline := Some
              (case selectedDiscipline (seeded_state h ls) of
                 None \<Rightarrow> fst (hd (disciplines d))
               | Some n \<Rightarrow> if n \<in> fst ` set (disciplines d) then n else fst (hd (disciplines d)))\<rparr>)"
  by (simp add: booted_state_def seeded_state_def state_init Let_def)

text \<open>
  C5 (boot seeding, amended). \<open>applyStateFromHash\<close> seeds the discipline from the
  fragment when it carries a non-empty one, otherwise from local storage when that holds a
  non-empty one, otherwise it stays \<open>null\<close>; it seeds the insight when the fragment
  carries a non-empty chart and a non-empty label, otherwise the insight stays \<open>null\<close>;
  the filter stays \<open>selection\<close>. \<open>init\<close> keeps the seeded insight and filter. It keeps the
  seeded discipline when that is a key of \<open>disciplines\<close>, or when \<open>disciplines\<close> is empty;
  otherwise (nothing seeded, or a name that is no key) the discipline after \<open>init\<close> is the
  first key of \<open>disciplines\<close>.
\<close>

theorem boot_seeding:
  "(truthy (hash_param h ''discipline'') \<longrightarrow>
      selectedDiscipline (seeded_state h ls) = hash_param h ''discipline'')
   \<and> (\<not> truthy (hash_param h ''discipline'') \<and> truthy ls \<longrightarrow> selectedDiscipline (seeded_state h ls) = ls)
   \<and> (\<not> truthy (hash_param h ''discipline'') \<and> \<not> truthy ls \<longrightarrow>
      selectedDiscipline (seeded_state h ls) = None)
   \<and> (hash_param h ''chart'' = Some c \<and> c \<noteq> [] \<and> hash_param h ''label'' = Some l \<and> l \<noteq> [] \<longrightarrow>
      selectedInsight (seeded_state h ls) = Some \<lparr>chartKey = c, label = l\<rparr>)
   \<and> (\<not> truthy (hash_param h ''chart'') \<or> \<not> truthy (hash_param h ''label'') \<longrightarrow>
      selectedInsight (seeded_state h ls) = None)
   \<and> sourceFilter (seeded_state h ls) = ''selection''
   \<and> selectedInsight (booted_state d h ls) = selectedInsight (seeded_state h ls)
   \<and> sourceFilter (booted_state d h ls) = ''selection''
   \<and> (disciplines d = [] \<longrightarrow>
      selectedDiscipline (booted_state d h ls) = selectedDiscipline (seeded_state h ls))
   \<and> (selectedDiscipline (seeded_state h ls) = Some n \<and> n \<in> set (map fst (disciplines d)) \<longrightarrow>
      selectedDiscipline (booted_state d h ls) = Some n)
   \<and> (disciplines d \<noteq> [] \<and>
      (case selectedDiscipline (seeded_state h ls) of
         None \<Rightarrow> True | Some m \<Rightarrow> m \<notin> set (map fst (disciplines d))) \<longrightarrow>
      selectedDiscipline (booted_state d h ls) = Some (fst (hd (disciplines d))))"
proof (intro conjI impI)
  assume "hash_param h ''chart'' = Some c \<and> c \<noteq> [] \<and> hash_param h ''label'' = Some l \<and> l \<noteq> []"
  then show "selectedInsight (seeded_state h ls) = Some \<lparr>chartKey = c, label = l\<rparr>"
    by (simp add: seeded_state_eq)
next
  assume "\<not> truthy (hash_param h ''chart'') \<or> \<not> truthy (hash_param h ''label'')"
  then show "selectedInsight (seeded_state h ls) = None"
    by (auto simp add: seeded_state_eq truthy_def split: option.splits)
next
  assume "selectedDiscipline (seeded_state h ls) = Some n \<and> n \<in> set (map fst (disciplines d))"
  then show "selectedDiscipline (booted_state d h ls) = Some n"
    by (auto simp add: booted_state_eq)
next
  assume "disciplines d \<noteq> [] \<and>
      (case selectedDiscipline (seeded_state h ls) of
         None \<Rightarrow> True | Some m \<Rightarrow> m \<notin> set (map fst (disciplines d)))"
  then show "selectedDiscipline (booted_state d h ls) = Some (fst (hd (disciplines d)))"
    by (auto simp add: booted_state_eq split: option.splits)
qed (simp_all add: seeded_state_eq booted_state_eq)

lemma example_hash_params:
  "hash_param ''#discipline=Business&chart=aiMentionsTrend&label=2024-Q1'' ''discipline'' = Some ''Business''"
  "hash_param ''#discipline=Business&chart=aiMentionsTrend&label=2024-Q1'' ''chart'' = Some ''aiMentionsTrend''"
  "hash_param ''#discipline=Business&chart=aiMentionsTrend&label=2024-Q1'' ''label'' = Some ''2024-Q1''"
  "hash_param ''#discipline=Law'' ''discipline'' = Some ''Law''"
  "hash_param ''#discipline=Law'' ''chart'' = None"
  "hash_param ''#discipline=Law'' ''label'' = None"
  "hash_param [] k = None"
  "hash_param ''#chart=bogus&label=nope'' ''discipline'' = None"
  "hash_param ''#chart=bogus&label=nope'' ''chart'' = Some ''bogus''"
  "hash_param ''#chart=bogus&label=nope'' ''label'' = Some ''nope''"
  by (simp_all add: eval_parse)

text \<open>Fragment over storage, storage alone, neither, and a fragment naming no discipline of
  the dataset, which \<open>init\<close> replaces unless the dataset has no discipline at all.\<close>

theorem boot_seeding_witness:
  "seeded_state ''#discipline=Business&chart=aiMentionsTrend&label=2024-Q1'' (Some ''Nursing'')
     = example_state (Some \<lparr>chartKey = ''aiMentionsTrend'', label = ''2024-Q1''\<rparr>) (Some ''Business'')
         ''selection''
   \<and> selectedDiscipline (booted_state example_data
         ''#discipline=Business&chart=aiMentionsTrend&label=2024-Q1'' (Some ''Nursing'')) = Some ''Business''
   \<and> selectedDiscipline (seeded_state [] (Some ''Business'')) = Some ''Business''
   \<and> seeded_state [] None = initial_state
   \<and> selectedDiscipline (booted_state example_data [] None) = Some ''Nursing''
   \<and> selectedDiscipline (seeded_state ''#discipline=Law'' (Some ''Business'')) = Some ''Law''
   \<and> selectedDiscipline (booted_state example_data ''#discipline=Law'' (Some ''Business'')) = Some ''Nursing''
   \<and> selectedDiscipline (booted_state empty_data ''#discipline=Law'' (Some ''Business'')) = Some ''Law''"
proof -
  let ?h = "''#discipline=Business&chart=aiMentionsTrend&label=2024-Q1''"
  note t = truthy_def example_hash_params example_data_disciplines
  have 1: "selectedDiscipline (seeded_state ?h (Some ''Nursing'')) = Some ''Business''
           \<and> selectedInsight (seeded_state ?h (Some ''Nursing''))
               = Some \<lparr>chartKey = ''aiMentionsTrend'', label = ''2024-Q1''\<rparr>
           \<and> sourceFilter (seeded_state ?h (Some ''Nursing'')) = ''selection''
           \<and> selectedDiscipline (booted_state example_data ?h (Some ''Nursing'')) = Some ''Business''"
    using boot_seeding [where h = ?h and ls = "Some ''Nursing''" and c = "''aiMentionsTrend''"
        and l = "''2024-Q1''" and d = example_data and n = "''Business''"]
    by (simp add: t)
  have 2: "selectedDiscipline (seeded_state [] (Some ''Business'')) = Some ''Business''"
    using boot_seeding [where h = "[]" and ls = "Some ''Business''"] by (simp add: t)
  have 3: "selectedDiscipline (seeded_state [] None) = None
           \<and> selectedInsight (seeded_state [] None) = None
           \<and> sourceFilter (seeded_state [] None) = ''selection''
           \<and> selectedDiscipline (booted_state example_data [] None) = Some ''Nursing''"
    using boot_seeding [where h = "[]" and ls = None and d = example_data] by (simp add: t)
  have 4: "selectedDiscipline (seeded_state ''#discipline=Law'' (Some ''Business'')) = Some ''Law''"
    using boot_seeding [where h = "''#discipline=Law''" and ls = "Some ''Business''"] by (simp add: t)
  have 5: "selectedDiscipline (booted_state example_data ''#discipline=Law'' (Some ''Business'')) = Some ''Nursing''"
    using 4 boot_seeding [where h = "''#discipline=Law''" and ls = "Some ''Business''" and d = example_data]
    by (simp add: t)
  have 6: "selectedDiscipline (booted_state empty_data ''#discipline=Law'' (Some ''Business'')) = Some ''Law''"
    using 4 boot_seeding [where h = "''#discipline=Law''" and ls = "Some ''Business''" and d = empty_data]
    by (simp add: empty_data_def)
  have eq: "\<And>s i n f. selectedInsight s = i \<and> selectedDiscipline s = n \<and> sourceFilter s = f
              \<Longrightarrow> s = example_state i n f"
    by (simp add: example_state_def)
  have s1: "seeded_state ?h (Some ''Nursing'')
     = example_state (Some \<lparr>chartKey = ''aiMentionsTrend'', label = ''2024-Q1''\<rparr>) (Some ''Business'')
         ''selection''"
    using 1 by (intro eq) simp
  have s3: "seeded_state [] None = initial_state"
    using 3 by (simp add: initial_state_def)
  from 1 s1 2 3 s3 4 5 6 show ?thesis by simp
qed

text \<open>
  C5 as stated fails: with an empty fragment and nothing stored, the discipline after
  \<open>init\<close> is not the default \<open>null\<close> but the dataset's first discipline.
\<close>

theorem boot_seeding_counterexample:
  "hash_param [] ''discipline'' = None
   \<and> selectedDiscipline (state (init example_data (page_load [] None))) = Some ''Nursing''
   \<and> selectedDiscipline initial_state = None"
  by (simp add: state_init state_applyStateFromHash page_load_def initial_state_def
      example_hash_params truthy_def example_data_disciplines Let_def)

section \<open>The invariant of the selection state\<close>

lemma valid_discipline_booted:
  "disciplines d \<noteq> [] \<Longrightarrow> \<exists>n. selectedDiscipline (booted_state d h ls) = Some n \<and> valid_discipline d n"
  by (cases "disciplines d") (auto simp add: booted_state_eq valid_discipline_def split: option.splits)

lemma selectedInsight_booted: "selectedInsight (booted_state d h ls) = selectedInsight (seeded_state h ls)"
  by (simp add: booted_state_eq)

lemma charts_registry_applyStateFromHash [simp]:
  "charts_registry (applyStateFromHash w) = charts_registry w"
  by (simp add: applyStateFromHash_def Let_def)

lemma charts_registry_showDiscipline [simp]:
  "charts_registry (showDiscipline d n w) = charts_registry w"
  by (simp add: showDiscipline_def Let_def split: option.split)

lemma charts_registry_renderDisciplineView [simp]:
  "charts_registry (renderDisciplineView d w) = charts_registry w"
  by (simp add: renderDisciplineView_def Let_def)

lemma charts_registry_createChart:
  "charts_registry (createChart k d w) =
     (if map_of (charts d) k = None then charts_registry w else set_add (charts_registry w) k)"
  by (simp add: createChart_def split: option.split)

lemma charts_registry_init:
  "charts_registry (init d w) =
     charts_registry (createChart ''aiOutsideITShare'' d (createChart ''aiMentionsByFamily'' d
       (createChart ''aiMentionsTrend'' d w)))"
  by (simp add: init_def Let_def charts_registry_createChart)

text \<open>
  C2 (invariant, amended). In every reachable state: when the dataset has a discipline,
  a discipline is selected and it is a key of \<open>disciplines\<close>; a selected insight either
  names a chart of the dataset and one of its labels, or is the pair
  \<open>applyStateFromHash\<close> seeded from the fragment, which nothing validates. So when the
  fragment seeds no insight, or a valid one, and the dataset has a discipline, the
  invariant holds in every reachable state.
\<close>

theorem reachable_selection_valid:
  assumes "reachable d h ls w"
  shows "(disciplines d \<noteq> [] \<longrightarrow> (\<exists>n. selectedDiscipline (state w) = Some n \<and> valid_discipline d n))
   \<and> (\<forall>i. selectedInsight (state w) = Some i \<longrightarrow>
          valid_insight d i \<or> selectedInsight (seeded_state h ls) = Some i)
   \<and> (disciplines d \<noteq> [] \<and>
        (case selectedInsight (seeded_state h ls) of None \<Rightarrow> True | Some i \<Rightarrow> valid_insight d i) \<longrightarrow>
        selection_invariant d (state w))"
proof -
  have main: "(disciplines d \<noteq> [] \<longrightarrow> (\<exists>n. selectedDiscipline (state w) = Some n \<and> valid_discipline d n))
   \<and> (\<forall>i. selectedInsight (state w) = Some i \<longrightarrow>
          valid_insight d i \<or> selectedInsight (seeded_state h ls) = Some i)"
    using assms
  proof (induction rule: reachable.induct)
    case boot
    show ?case
      using valid_discipline_booted [of d h ls] selectedInsight_booted [of d h ls]
      by (simp add: booted_state_def)
  next
    case (chart_click w k ch idx)
    have "valid_insight d \<lparr>chartKey = k, label = labels ch ! idx\<rparr>"
      using chart_click.hyps(3,4) by (simp add: valid_insight_def)
    with chart_click.IH show ?case
      by (simp add: state_handleSelection)
  next
    case (clear_click w)
    then show ?case by (simp add: state_clearSelectionClick)
  next
    case (filter_change w v)
    then show ?case by (simp add: state_sourcesFilterChange)
  next
    case (discipline_click w n)
    have v: "valid_discipline d n"
      using discipline_click.hyps(2) by (simp add: valid_discipline_def)
    have "map_of (disciplines d) n \<noteq> None"
      using discipline_click.hyps(2) by (simp add: map_of_eq_None_iff)
    then obtain disc where "map_of (disciplines d) n = Some disc"
      by blast
    with v discipline_click.IH show ?case
      by (simp add: state_showDiscipline)
  qed
  show ?thesis
  proof (intro conjI impI)
    assume a: "disciplines d \<noteq> [] \<and>
        (case selectedInsight (seeded_state h ls) of None \<Rightarrow> True | Some i \<Rightarrow> valid_insight d i)"
    show "selection_invariant d (state w)"
      using main a by (auto simp add: selection_invariant_def split: option.splits)
  qed (use main in simp_all)
qed

text \<open>A page loaded with a fragment naming no discipline of the dataset, then a click on the
  trend chart.\<close>

theorem reachable_selection_valid_witness:
  "reachable example_data ''#discipline=Law'' (Some ''Business'')
     (handleSelection ''aiMentionsTrend'' ''x::y'' example_data
        (init example_data (page_load ''#discipline=Law'' (Some ''Business''))))
   \<and> selection_invariant example_data
     (state (handleSelection ''aiMentionsTrend'' ''x::y'' example_data
        (init example_data (page_load ''#discipline=Law'' (Some ''Business'')))))"
proof -
  let ?w0 = "init example_data (page_load ''#discipline=Law'' (Some ''Business''))"
  have r0: "reachable example_data ''#discipline=Law'' (Some ''Business'') ?w0"
    by (rule reachable.boot)
  have reg: "''aiMentionsTrend'' \<in> set (charts_registry ?w0)"
    by (simp add: charts_registry_init charts_registry_createChart example_data_charts
        set_add_def page_load_def)
  have r1: "reachable example_data ''#discipline=Law'' (Some ''Business'')
     (handleSelection ''aiMentionsTrend''
        (labels \<lparr>labels = [''2024-Q1'', ''x::y''], sourceId = Some ''lightcast'', asOfDate = Some ''2025-12'',
      drilldown = Some [(''2024-Q1'',
        \<lparr>headline = ''H1'', interpretationText = ''I1'', whyItMatters = ''W1'',
         implications = Some [''a'', ''b''], teachingFocus = ''T1''\<rparr>)]\<rparr> ! 1) example_data ?w0)"
    by (rule reachable.chart_click [OF r0 reg example_data_charts(1)]) simp
  then have r: "reachable example_data ''#discipline=Law'' (Some ''Business'')
     (handleSelection ''aiMentionsTrend'' ''x::y'' example_data ?w0)"
    by simp
  have "selectedInsight (seeded_state ''#discipline=Law'' (Some ''Business'')) = None"
    by (simp add: seeded_state_eq example_hash_params)
  with r reachable_selection_valid [OF r] show ?thesis
    by (simp add: example_data_disciplines)
qed

text \<open>
  C2 as stated fails: the fragment \<open>chart=bogus&label=nope\<close> seeds a selection on a chart
  the dataset does not have, and \<open>init\<close> keeps it.
\<close>

theorem reachable_selection_valid_counterexample:
  "reachable example_data ''#chart=bogus&label=nope'' None
     (init example_data (page_load ''#chart=bogus&label=nope'' None))
   \<and> selectedInsight (state (init example_data (page_load ''#chart=bogus&label=nope'' None)))
      = Some \<lparr>chartKey = ''bogus'', label = ''nope''\<rparr>
   \<and> map_of (charts example_data) ''bogus'' = None
   \<and> \<not> selection_invariant example_data
         (state (init example_data (page_load ''#chart=bogus&label=nope'' None)))"
proof -
  have r: "reachable example_data ''#chart=bogus&label=nope'' None
     (init example_data (page_load ''#chart=bogus&label=nope'' None))"
    by (rule reachable.boot)
  have s: "selectedInsight (state (init example_data (page_load ''#chart=bogus&label=nope'' None)))
      = Some \<lparr>chartKey = ''bogus'', label = ''nope''\<rparr>"
    using selectedInsight_booted [of example_data "''#chart=bogus&label=nope''" None]
    by (simp add: booted_state_def seeded_state_eq example_hash_params)
  from r s show ?thesis
    by (simp add: selection_invariant_def valid_insight_def example_data_no_chart)
qed

section \<open>The data validator\<close>


text \<open>On \<open>null\<close> the validator pushes its first message and then throws at
  \<open>data.takeaway\<close>; the boot chain catches the error and reports it.\<close>

lemma validateDataShape_null: "validateDataShape JNull = Inl TypeError"
  by (simp add: validateDataShape_def bind_def)

lemma boot_chain_null:
  "boot_chain JNull = \<lparr>alerts = [CouldNotInitialize TypeError], init_called = False\<rparr>"
  by (simp add: boot_chain_def validateDataShape_null)












end
